theory Spec2Isabelle
  imports Main
begin

section \<open>Markup trees\<close>

text \<open>
  The value of a JSX expression: an element with a tag, its attributes in the order
  they are written, and its children; or a run of text. JSX drops the line breaks and
  indentation around a text child, so the text between \<^verbatim>\<open><div ...>\<close> and
  \<^verbatim>\<open><a\<close> is \<^verbatim>\<open>Available on\<close>.
\<close>

type_synonym attrs = "(string \<times> string) list"

datatype markup = Text string | Element string attrs "markup list"

section \<open>Template literals\<close>

text \<open>
  A substitution \<^verbatim>\<open>${e}\<close> of a template literal converts the value of
  \<^verbatim>\<open>e\<close> to a string. The values substituted in this component are strings or
  \<^verbatim>\<open>undefined\<close> (\<open>None\<close>): a string is spliced as it is, and
  \<^verbatim>\<open>undefined\<close> becomes the nine characters \<^verbatim>\<open>undefined\<close>.
\<close>

definition template_str :: "string option \<Rightarrow> string" where
  "template_str v = (case v of None \<Rightarrow> ''undefined'' | Some s \<Rightarrow> s)"

section \<open>The asset bundle\<close>

record assets =
  emphasisColor :: string
  docsIcon :: string
  githubLogo :: string

text \<open>
  \<^verbatim>\<open>getAssets\<close>; the optional parameter \<^verbatim>\<open>mode\<close> is a string or absent,
  and \<^verbatim>\<open>mode === "dark"\<close> holds for the string \<^verbatim>\<open>dark\<close> only.
\<close>

definition getAssets :: "string option \<Rightarrow> assets" where
  "getAssets m =
     (let darkMode = (m = Some ''dark'') in
      \<lparr> emphasisColor = (if darkMode then ''white'' else ''black''),
        docsIcon = (if darkMode
                    then ''/assets/docsIconLight.svg''
                    else ''/assets/docsIconDark.svg''),
        githubLogo = (if darkMode
                      then ''/assets/githubLogoLight.svg''
                      else ''/assets/githubLogoDark.svg'') \<rparr>)"

section \<open>The memoisation hook\<close>

text \<open>
  \<^verbatim>\<open>useMemo(create, deps)\<close> keeps one cell per call site of a mounted component:
  empty before the first render, afterwards the dependency array and the value of the
  last computation. A render whose dependency array equals the stored one returns the
  stored value; any other render calls \<^verbatim>\<open>create\<close> and stores the result.
\<close>

type_synonym ('d, 'v) memo_cell = "('d list \<times> 'v) option"

definition useMemo ::
  "(unit \<Rightarrow> 'v) \<Rightarrow> 'd list \<Rightarrow> ('d, 'v) memo_cell \<Rightarrow> 'v \<times> ('d, 'v) memo_cell" where
  "useMemo create deps cell =
     (case cell of
        None \<Rightarrow> (let v = create () in (v, Some (deps, v)))
      | Some (prev_deps, prev_value) \<Rightarrow>
          if prev_deps = deps then (prev_value, cell)
          else (let v = create () in (v, Some (deps, v))))"

section \<open>The component\<close>

record FooterProps =
  mode :: "string option"
  className :: "string option"

text \<open>
  \<^verbatim>\<open>Footer\<close>. Two values come from outside the file and are parameters here: the
  environment \<^verbatim>\<open>process.env\<close>, a map from variable names to strings, and the
  string constant \<^verbatim>\<open>PAGE_PADDING\<close> imported from the layout module. The hook's
  cell is passed in and returned.
\<close>

definition Footer ::
  "(string \<rightharpoonup> string) \<Rightarrow> string \<Rightarrow> FooterProps \<Rightarrow> (string option, assets) memo_cell
     \<Rightarrow> markup \<times> (string option, assets) memo_cell" where
  "Footer process_env PAGE_PADDING props cell =
     (let (assets, cell') = useMemo (\<lambda>_. getAssets (mode props)) [mode props] cell in
      (Element ''div''
         [(''className'',
           ''flex h-[120px] items-center justify-between text-base '' @ PAGE_PADDING
             @ '' '' @ template_str (className props))]
         [Element ''div'' [(''className'', ''text-purple-softpurple'')]
            [Text ''Available on'',
             Element ''a''
               [(''href'', ''https://ceramic.network/''),
                (''target'', ''_blank''),
                (''rel'', ''noopener noreferrer''),
                (''className'',
                 ''text-'' @ emphasisColor assets @ '' ml-1 hover:underline'')]
               [Element ''span'' [(''className'', ''text-purple-darkpurple'')]
                  [Text ''Ceramic.'']]],
          Element ''div'' [(''className'', ''flex'')]
            [Element ''a''
               [(''href'',
                 ''https://github.com/gitcoinco/passport-scorer/commit/''
                   @ template_str (process_env ''NEXT_PUBLIC_GIT_COMMIT_HASH'')),
                (''target'', ''_blank''),
                (''rel'', ''noopener noreferrer''),
                (''className'', ''mr-8 text-purple-darkpurple'')]
               [Text ''Git commit''],
             Element ''a''
               [(''href'', ''https://github.com/gitcoinco/passport''),
                (''target'', ''_blank''),
                (''rel'', ''noopener noreferrer''),
                (''className'', ''mr-8'')]
               [Element ''img''
                  [(''src'', githubLogo assets), (''alt'', ''Github Logo'')] []],
             Element ''a''
               [(''href'',
                 ''https://docs.passport.gitcoin.co/building-with-passport/quick-start-guide''),
                (''target'', ''_blank''),
                (''rel'', ''noopener noreferrer''),
                (''className'', '''')]
               [Element ''img''
                  [(''src'', docsIcon assets), (''alt'', ''Docs Icon'')] []]]],
       cell'))"

section \<open>Renders of a mounted component\<close>

text \<open>
  The cell of a mounted footer after it has been rendered with each of the props of
  \<open>history\<close> in turn, starting from the empty cell of the mount.
\<close>

definition cell_after ::
  "(string \<rightharpoonup> string) \<Rightarrow> string \<Rightarrow> FooterProps list \<Rightarrow> (string option, assets) memo_cell" where
  "cell_after process_env PAGE_PADDING history =
     foldl (\<lambda>cell props. snd (Footer process_env PAGE_PADDING props cell)) None history"

text \<open>
  \<open>render\<close> is the markup of one render with the given mode and class name, after any
  history of earlier renders of the same footer (\<open>[]\<close> for the first render).
\<close>

definition render ::
  "(string \<rightharpoonup> string) \<Rightarrow> string \<Rightarrow> FooterProps list \<Rightarrow> string option \<Rightarrow> string option
     \<Rightarrow> markup" where
  "render process_env PAGE_PADDING history m c =
     fst (Footer process_env PAGE_PADDING \<lparr> mode = m, className = c \<rparr>
            (cell_after process_env PAGE_PADDING history))"

text \<open>The bundle that line 24 of the source hands to such a render.\<close>

definition render_assets ::
  "(string \<rightharpoonup> string) \<Rightarrow> string \<Rightarrow> FooterProps list \<Rightarrow> string option \<Rightarrow> assets" where
  "render_assets process_env PAGE_PADDING history m =
     fst (useMemo (\<lambda>_. getAssets m) [m] (cell_after process_env PAGE_PADDING history))"

section \<open>Reading a markup tree\<close>

fun attr :: "string \<Rightarrow> markup \<Rightarrow> string option" where
  "attr k (Element tag as cs) = map_of as k"
| "attr k (Text s) = None"

fun children :: "markup \<Rightarrow> markup list" where
  "children (Element tag as cs) = cs"
| "children (Text s) = []"

text \<open>The node reached from the root by a path of child indices.\<close>

fun node_at :: "nat list \<Rightarrow> markup \<Rightarrow> markup option" where
  "node_at [] t = Some t"
| "node_at (i # p) t =
     (if i < length (children t) then node_at p (children t ! i) else None)"

definition attr_at :: "nat list \<Rightarrow> string \<Rightarrow> markup \<Rightarrow> string option" where
  "attr_at p k t = (case node_at p t of None \<Rightarrow> None | Some n \<Rightarrow> attr k n)"

text \<open>
  The positions of the footer's parts: the link of the left region is the second child
  of the first \<^verbatim>\<open>div\<close>; the three links of the right region are the children of
  the second, each icon the only child of its link.
\<close>

definition left_link :: "nat list" where "left_link = [0, 1]"
definition commit_link :: "nat list" where "commit_link = [1, 0]"
definition github_link :: "nat list" where "github_link = [1, 1]"
definition docs_link :: "nat list" where "docs_link = [1, 2]"
definition github_img :: "nat list" where "github_img = [1, 1, 0]"
definition docs_img :: "nat list" where "docs_img = [1, 2, 0]"

text \<open>
  The class list of an element: its class attribute split at ASCII white space, empty
  pieces dropped.
\<close>

definition is_space :: "char \<Rightarrow> bool" where
  "is_space ch = (ch \<in> {CHR '' '', CHR 0x09, CHR 0x0A, CHR 0x0C, CHR 0x0D})"

fun tokens :: "string \<Rightarrow> string \<Rightarrow> string list" where
  "tokens cur [] = (if cur = [] then [] else [cur])"
| "tokens cur (ch # s) =
     (if is_space ch then (if cur = [] then tokens [] s else cur # tokens [] s)
      else tokens (cur @ [ch]) s)"

definition class_list :: "markup \<Rightarrow> string list" where
  "class_list t = (case attr ''className'' t of None \<Rightarrow> [] | Some s \<Rightarrow> tokens [] s)"

section \<open>Comparing two renders\<close>

text \<open>
  Overwriting one attribute of an element, and rewriting the node at a path; a path that
  leaves the tree changes nothing.
\<close>

fun set_attr :: "string \<Rightarrow> string \<Rightarrow> markup \<Rightarrow> markup" where
  "set_attr k v (Element tag as cs) =
     Element tag (map (\<lambda>(k', v'). if k' = k then (k', v) else (k', v')) as) cs"
| "set_attr k v (Text s) = Text s"

fun update_at :: "nat list \<Rightarrow> (markup \<Rightarrow> markup) \<Rightarrow> markup \<Rightarrow> markup" where
  "update_at [] f t = f t"
| "update_at (i # p) f (Text s) = Text s"
| "update_at (i # p) f (Element tag as cs) =
     Element tag as (if i < length cs then cs[i := update_at p f (cs ! i)] else cs)"

text \<open>
  \<open>blank_derived\<close> empties the three attributes that carry a value of the bundle: the
  class attribute of the left link and the \<^verbatim>\<open>src\<close> of the two icons. What is
  left is every other part of the markup.
\<close>

definition blank_derived :: "markup \<Rightarrow> markup" where
  "blank_derived t =
     update_at left_link (set_attr ''className'' '''')
       (update_at github_img (set_attr ''src'' '''')
          (update_at docs_img (set_attr ''src'' '''') t))"

text \<open>A URL whose last path segment is empty ends in a slash.\<close>

definition trailing_empty_segment :: "string \<Rightarrow> bool" where
  "trailing_empty_segment url = (url \<noteq> [] \<and> last url = CHR ''/'')"

section \<open>The memoised bundle is the computed bundle\<close>

text \<open>A cell is sound when the value it stores is the bundle of the mode it stores.\<close>

definition cell_ok :: "(string option, assets) memo_cell \<Rightarrow> bool" where
  "cell_ok cell =
     (case cell of None \<Rightarrow> True
      | Some (deps, v) \<Rightarrow> (case deps of [m] \<Rightarrow> v = getAssets m | _ \<Rightarrow> False))"

lemma cell_ok_step: "cell_ok cell \<Longrightarrow> cell_ok (snd (Footer env pad props cell))"
  by (auto simp: cell_ok_def Footer_def useMemo_def Let_def
           split: option.splits prod.splits list.splits if_splits)

lemma cell_ok_foldl:
  "cell_ok cell \<Longrightarrow> cell_ok (foldl (\<lambda>cell props. snd (Footer env pad props cell)) cell history)"
  by (induction history arbitrary: cell) (simp_all add: cell_ok_step)

lemma cell_ok_after: "cell_ok (cell_after env pad history)"
  unfolding cell_after_def by (rule cell_ok_foldl) (simp add: cell_ok_def)

lemma useMemo_sound:
  "cell_ok cell \<Longrightarrow> fst (useMemo (\<lambda>_. getAssets m) [m] cell) = getAssets m"
  by (auto simp: cell_ok_def useMemo_def Let_def split: option.splits list.splits)

lemma render_assets_eq: "render_assets env pad history m = getAssets m"
  unfolding render_assets_def by (rule useMemo_sound) (rule cell_ok_after)

lemma Footer_markup_cell:
  "cell_ok cell \<Longrightarrow> fst (Footer env pad props cell) = fst (Footer env pad props None)"
  by (auto simp: cell_ok_def Footer_def useMemo_def Let_def
           split: option.splits list.splits)

lemma render_first:
  "render env pad history m c = fst (Footer env pad \<lparr> mode = m, className = c \<rparr> None)"
  unfolding render_def by (rule Footer_markup_cell) (rule cell_ok_after)

lemmas paths = left_link_def commit_link_def github_link_def docs_link_def
  github_img_def docs_img_def

lemmas first_render = render_first Footer_def useMemo_def Let_def attr_at_def paths

section \<open>Class lists\<close>

lemma tokens_word:
  "\<forall>ch \<in> set w. \<not> is_space ch \<Longrightarrow> cur @ w \<noteq> [] \<Longrightarrow> tokens cur w = [cur @ w]"
  by (induction w arbitrary: cur) auto

lemma tokens_last_word:
  assumes "\<forall>ch \<in> set w. \<not> is_space ch" and "w \<noteq> []"
  shows "w \<in> set (tokens cur (s @ CHR '' '' # w))"
proof (induction s arbitrary: cur)
  case Nil
  have "tokens [] w = [w]"
    using assms tokens_word [of w "[]"] by simp
  then show ?case
    by (simp add: is_space_def)
next
  case (Cons ch s)
  then show ?case
    by simp
qed

section \<open>The light and the dark variant\<close>

text \<open>
  C1. For every mode other than \<^verbatim>\<open>"dark"\<close> (absent, \<^verbatim>\<open>"light"\<close> or any
  other string) and every class name, the bundle is the light one and the render shows
  it: emphasis colour \<^verbatim>\<open>black\<close>, github logo \<^verbatim>\<open>/assets/githubLogoDark.svg\<close>,
  docs icon \<^verbatim>\<open>/assets/docsIconDark.svg\<close>.
\<close>

theorem light_variant:
  "m \<noteq> Some ''dark'' \<Longrightarrow>
     getAssets m = \<lparr> emphasisColor = ''black'',
                     docsIcon = ''/assets/docsIconDark.svg'',
                     githubLogo = ''/assets/githubLogoDark.svg'' \<rparr>
     \<and> attr_at left_link ''className'' (render env pad history m c)
         = Some ''text-black ml-1 hover:underline''
     \<and> attr_at github_img ''src'' (render env pad history m c)
         = Some ''/assets/githubLogoDark.svg''
     \<and> attr_at docs_img ''src'' (render env pad history m c)
         = Some ''/assets/docsIconDark.svg''"
  by (simp add: first_render getAssets_def)

theorem light_variant_witness:
  "Some ''light'' \<noteq> Some ''dark''
   \<and> getAssets (Some ''light'') = \<lparr> emphasisColor = ''black'',
                     docsIcon = ''/assets/docsIconDark.svg'',
                     githubLogo = ''/assets/githubLogoDark.svg'' \<rparr>
   \<and> attr_at left_link ''className''
        (render Map.empty ''px-4'' [\<lparr> mode = Some ''dark'', className = None \<rparr>]
           (Some ''light'') None)
       = Some ''text-black ml-1 hover:underline''
   \<and> attr_at github_img ''src''
        (render Map.empty ''px-4'' [\<lparr> mode = Some ''dark'', className = None \<rparr>]
           (Some ''light'') None)
       = Some ''/assets/githubLogoDark.svg''
   \<and> attr_at docs_img ''src''
        (render Map.empty ''px-4'' [\<lparr> mode = Some ''dark'', className = None \<rparr>]
           (Some ''light'') None)
       = Some ''/assets/docsIconDark.svg''"
proof -
  have h: "Some ''light'' \<noteq> Some ''dark''"
    by simp
  show ?thesis
    using h light_variant [OF h, of Map.empty "''px-4''"
        "[\<lparr> mode = Some ''dark'', className = None \<rparr>]" None]
    by simp
qed

text \<open>
  C2. For the mode \<^verbatim>\<open>"dark"\<close> the bundle is the dark one and the render shows it:
  emphasis colour \<^verbatim>\<open>white\<close>, github logo \<^verbatim>\<open>/assets/githubLogoLight.svg\<close>,
  docs icon \<^verbatim>\<open>/assets/docsIconLight.svg\<close>.
\<close>

theorem dark_variant:
  "getAssets (Some ''dark'') = \<lparr> emphasisColor = ''white'',
                     docsIcon = ''/assets/docsIconLight.svg'',
                     githubLogo = ''/assets/githubLogoLight.svg'' \<rparr>
   \<and> attr_at left_link ''className'' (render env pad history (Some ''dark'') c)
       = Some ''text-white ml-1 hover:underline''
   \<and> attr_at github_img ''src'' (render env pad history (Some ''dark'') c)
       = Some ''/assets/githubLogoLight.svg''
   \<and> attr_at docs_img ''src'' (render env pad history (Some ''dark'') c)
       = Some ''/assets/docsIconLight.svg''"
  by (simp add: first_render getAssets_def)

text \<open>
  C3. The render with mode \<^verbatim>\<open>"dark"\<close> and class name \<^verbatim>\<open>"extra-class"\<close>: the
  class list of the root element has \<^verbatim>\<open>extra-class\<close> in it, the emphasis colour is
  \<^verbatim>\<open>white\<close>, the github logo \<^verbatim>\<open>/assets/githubLogoLight.svg\<close> and the docs icon
  \<^verbatim>\<open>/assets/docsIconLight.svg\<close>.
\<close>

theorem dark_extra_class:
  "''extra-class'' \<in> set (class_list (render env pad history (Some ''dark'') (Some ''extra-class'')))
   \<and> emphasisColor (render_assets env pad history (Some ''dark'')) = ''white''
   \<and> attr_at left_link ''className''
        (render env pad history (Some ''dark'') (Some ''extra-class''))
       = Some ''text-white ml-1 hover:underline''
   \<and> attr_at github_img ''src''
        (render env pad history (Some ''dark'') (Some ''extra-class''))
       = Some ''/assets/githubLogoLight.svg''
   \<and> attr_at docs_img ''src''
        (render env pad history (Some ''dark'') (Some ''extra-class''))
       = Some ''/assets/docsIconLight.svg''"
proof -
  have "''extra-class'' \<in> set (tokens []
          ((''flex h-[120px] items-center justify-between text-base '' @ pad)
             @ CHR '' '' # ''extra-class''))"
    by (rule tokens_last_word) (simp_all add: is_space_def)
  then have "''extra-class''
      \<in> set (class_list (render env pad history (Some ''dark'') (Some ''extra-class'')))"
    by (simp add: class_list_def first_render template_str_def)
  then show ?thesis
    by (simp add: first_render render_assets_eq getAssets_def)
qed

section \<open>The commit link\<close>

text \<open>
  C4 as stated fails where the variable is not set: the URL of the commit link then ends
  in the word \<^verbatim>\<open>undefined\<close>, not in an empty segment.
\<close>

theorem commit_url_unset_counterexample:
  "attr_at commit_link ''href'' (render Map.empty ''px-4'' [] None None)
     = Some ''https://github.com/gitcoinco/passport-scorer/commit/undefined''
   \<and> \<not> trailing_empty_segment
         ''https://github.com/gitcoinco/passport-scorer/commit/undefined''"
  by (simp add: first_render template_str_def trailing_empty_segment_def)

text \<open>
  C4, amended. In every environment the commit link has a URL: the fixed prefix followed
  by the value of the variable when it is set to a string, and by the word
  \<^verbatim>\<open>undefined\<close> when it is not set. When the variable is set to the empty string
  the URL is the prefix alone, with a trailing empty segment.
\<close>

theorem commit_url:
  "attr_at commit_link ''href'' (render env pad history m c)
     = Some (case env ''NEXT_PUBLIC_GIT_COMMIT_HASH'' of
               Some hash \<Rightarrow> ''https://github.com/gitcoinco/passport-scorer/commit/'' @ hash
             | None \<Rightarrow> ''https://github.com/gitcoinco/passport-scorer/commit/undefined'')
   \<and> attr_at commit_link ''href''
         (render (env(''NEXT_PUBLIC_GIT_COMMIT_HASH'' \<mapsto> '''')) pad history m c)
       = Some ''https://github.com/gitcoinco/passport-scorer/commit/''
   \<and> trailing_empty_segment ''https://github.com/gitcoinco/passport-scorer/commit/''"
  by (simp add: first_render template_str_def trailing_empty_segment_def
           split: option.split)

section \<open>The class attribute of the root\<close>

text \<open>
  C5. A class name that is given appears as it is in the class attribute of the root
  element, after the fixed base classes and the padding token; nothing is checked or
  changed in it.
\<close>

theorem class_name_verbatim:
  "attr ''className'' (render env pad history m (Some c))
     = Some (''flex h-[120px] items-center justify-between text-base '' @ pad @ '' '' @ c)"
  by (simp add: first_render template_str_def)

text \<open>
  C10. When the class name is left out, the class attribute of the root element is the
  fixed base classes, the padding token and then the word \<^verbatim>\<open>undefined\<close>.
\<close>

theorem class_name_omitted:
  "attr ''className'' (render env pad history m None)
     = Some (''flex h-[120px] items-center justify-between text-base '' @ pad
               @ '' '' @ ''undefined'')"
  by (simp add: first_render template_str_def)

section \<open>Totality and determinism\<close>

text \<open>
  C6. Every mode, class name, environment (so every value of the commit hash, set or
  not) and hook cell gives a markup tree: a root \<^verbatim>\<open>div\<close> with a left and a right
  region. No branch of the component raises.
\<close>

theorem Footer_total:
  "\<exists>root_attrs left right cell'.
     Footer env pad \<lparr> mode = m, className = c \<rparr> cell
       = (Element ''div'' root_attrs [left, right], cell')"
  by (simp add: Footer_def split: prod.split)

text \<open>
  C7. Two renders with the same mode use the same bundle, whatever was rendered before
  either of them: the memoised bundle is always the one \<open>getAssets\<close> computes for the
  mode.
\<close>

theorem assets_deterministic:
  "render_assets env pad history m = render_assets env' pad' history' m
   \<and> render_assets env pad history m = getAssets m"
  by (simp add: render_assets_eq)

section \<open>The layout\<close>

text \<open>
  C8. The right region holds, in this order, the link to the commit page, the link to
  the repository with the github logo of the bundle as its only child, and the link to
  the documentation with the docs icon of the bundle as its only child. The URL of the
  commit link is the fixed prefix followed by the commit hash of the environment (by the
  word \<^verbatim>\<open>undefined\<close> when the variable is not set). These three links and the
  link of the left region open in a new browsing context with
  \<^verbatim>\<open>noopener noreferrer\<close>.
\<close>

theorem right_region:
  "node_at [1] (render env pad history m c)
     = Some (Element ''div'' [(''className'', ''flex'')]
         [Element ''a''
            [(''href'',
              (case env ''NEXT_PUBLIC_GIT_COMMIT_HASH'' of
                 Some hash \<Rightarrow>
                   ''https://github.com/gitcoinco/passport-scorer/commit/'' @ hash
               | None \<Rightarrow>
                   ''https://github.com/gitcoinco/passport-scorer/commit/undefined'')),
             (''target'', ''_blank''),
             (''rel'', ''noopener noreferrer''),
             (''className'', ''mr-8 text-purple-darkpurple'')]
            [Text ''Git commit''],
          Element ''a''
            [(''href'', ''https://github.com/gitcoinco/passport''),
             (''target'', ''_blank''),
             (''rel'', ''noopener noreferrer''),
             (''className'', ''mr-8'')]
            [Element ''img''
               [(''src'',
                 (if m = Some ''dark'' then ''/assets/githubLogoLight.svg''
                  else ''/assets/githubLogoDark.svg'')),
                (''alt'', ''Github Logo'')] []],
          Element ''a''
            [(''href'',
              ''https://docs.passport.gitcoin.co/building-with-passport/quick-start-guide''),
             (''target'', ''_blank''),
             (''rel'', ''noopener noreferrer''),
             (''className'', '''')]
            [Element ''img''
               [(''src'',
                 (if m = Some ''dark'' then ''/assets/docsIconLight.svg''
                  else ''/assets/docsIconDark.svg'')),
                (''alt'', ''Docs Icon'')] []]])
   \<and> attr_at github_img ''src'' (render env pad history m c)
       = Some (githubLogo (getAssets m))
   \<and> attr_at docs_img ''src'' (render env pad history m c)
       = Some (docsIcon (getAssets m))
   \<and> map (\<lambda>p. attr_at p ''target'' (render env pad history m c))
         [left_link, commit_link, github_link, docs_link]
       = replicate 4 (Some ''_blank'')
   \<and> map (\<lambda>p. attr_at p ''rel'' (render env pad history m c))
         [left_link, commit_link, github_link, docs_link]
       = replicate 4 (Some ''noopener noreferrer'')"
  by (simp add: first_render template_str_def getAssets_def numeral_eq_Suc
           split: option.split)

text \<open>
  C9. The mode reaches three attributes only. With the class attribute of the left link
  and the \<^verbatim>\<open>src\<close> of the two icons emptied, two renders with the same class name
  and environment and any two modes are the same tree; and in the class attribute of the
  left link only the emphasis colour depends on the mode.
\<close>

theorem mode_only_derived:
  "blank_derived (render env pad history1 m1 c) = blank_derived (render env pad history2 m2 c)
   \<and> attr_at left_link ''className'' (render env pad history1 m1 c)
       = Some (''text-'' @ emphasisColor (getAssets m1) @ '' ml-1 hover:underline'')
   \<and> attr_at github_img ''src'' (render env pad history1 m1 c)
       = Some (githubLogo (getAssets m1))
   \<and> attr_at docs_img ''src'' (render env pad history1 m1 c)
       = Some (docsIcon (getAssets m1))"
  by (simp add: first_render blank_derived_def)

end
